theory Spec2Isabelle
  imports Main
begin

section \<open>Python values and exceptions\<close>

text \<open>
  The server handles JSON-like Python data: the records the manager lists, the
  response of \<^verbatim>\<open>describe_instances\<close> and the dictionaries the tools return.
  Dictionaries are keyed by strings and keep their insertion order, so they are
  association lists.
\<close>

datatype pyval =
    PNone
  | PBool bool
  | PInt int
  | PStr string
  | PList "pyval list"
  | PDict "(string \<times> pyval) list"

type_synonym pydict = "(string \<times> pyval) list"

text \<open>
  An exception: its class name, what \<^verbatim>\<open>str(e)\<close> gives, and the cause set by
  \<^verbatim>\<open>raise ... from e\<close>. Only exceptions deriving from \<^verbatim>\<open>Exception\<close> are
  modelled, the ones an \<^verbatim>\<open>except Exception\<close> clause catches.
\<close>

datatype exn = Exn (exn_kind: string) (exn_str: string) (exn_cause: "exn option")

text \<open>Truth value testing, as \<^verbatim>\<open>x or None\<close> uses it.\<close>

fun truthy :: "pyval \<Rightarrow> bool" where
  "truthy PNone = False"
| "truthy (PBool b) = b"
| "truthy (PInt i) = (i \<noteq> 0)"
| "truthy (PStr s) = (s \<noteq> [])"
| "truthy (PList xs) = (xs \<noteq> [])"
| "truthy (PDict kvs) = (kvs \<noteq> [])"

definition py_or :: "pyval \<Rightarrow> pyval \<Rightarrow> pyval" where
  "py_or a b = (if truthy a then a else b)"

definition dict_get :: "pydict \<Rightarrow> string \<Rightarrow> pyval \<Rightarrow> pyval" where
  "dict_get d k dflt = (case map_of d k of None \<Rightarrow> dflt | Some v \<Rightarrow> v)"

text \<open>The name of a value's type and a string in single quotes, for messages.\<close>

fun type_name :: "pyval \<Rightarrow> string" where
  "type_name PNone = ''NoneType''"
| "type_name (PBool b) = ''bool''"
| "type_name (PInt i) = ''int''"
| "type_name (PStr s) = ''str''"
| "type_name (PList xs) = ''list''"
| "type_name (PDict d) = ''dict''"

definition quoted :: "string \<Rightarrow> string" where
  "quoted s = CHR 0x27 # s @ [CHR 0x27]"

text \<open>\<^verbatim>\<open>x.get(k, dflt)\<close>: only a dictionary has the method.\<close>

fun py_get :: "pyval \<Rightarrow> string \<Rightarrow> pyval \<Rightarrow> exn + pyval" where
  "py_get (PDict d) k dflt = Inr (dict_get d k dflt)"
| "py_get v k dflt =
     Inl (Exn ''AttributeError''
            (quoted (type_name v) @ '' object has no attribute '' @ quoted ''get'') None)"

text \<open>\<^verbatim>\<open>x[k]\<close> for a string key \<open>k\<close>.\<close>

fun py_item :: "pyval \<Rightarrow> string \<Rightarrow> exn + pyval" where
  "py_item (PDict d) k =
     (case map_of d k of
        None \<Rightarrow> Inl (Exn ''KeyError'' (quoted k) None)
      | Some v \<Rightarrow> Inr v)"
| "py_item (PList xs) k =
     Inl (Exn ''TypeError'' ''list indices must be integers or slices, not str'' None)"
| "py_item (PStr s) k =
     Inl (Exn ''TypeError'' (''string indices must be integers, not '' @ quoted ''str'') None)"
| "py_item v k =
     Inl (Exn ''TypeError'' (quoted (type_name v) @ '' object is not subscriptable'') None)"

text \<open>\<^verbatim>\<open>x[0]\<close>.\<close>

fun py_index0 :: "pyval \<Rightarrow> exn + pyval" where
  "py_index0 (PList []) = Inl (Exn ''IndexError'' ''list index out of range'' None)"
| "py_index0 (PList (x # xs)) = Inr x"
| "py_index0 (PStr []) = Inl (Exn ''IndexError'' ''string index out of range'' None)"
| "py_index0 (PStr (c # cs)) = Inr (PStr [c])"
| "py_index0 (PDict d) = Inl (Exn ''KeyError'' ''0'' None)"
| "py_index0 v =
     Inl (Exn ''TypeError'' (quoted (type_name v) @ '' object is not subscriptable'') None)"

section \<open>Collaborators, the provider's state and the trace of calls\<close>

text \<open>
  \<^verbatim>\<open>DevBoxManager\<close>, \<^verbatim>\<open>launch_devbox\<close> and \<^verbatim>\<open>utils.get_project_tag\<close> are
  imported by \<^verbatim>\<open>mcp_server.py\<close> and defined elsewhere; they are parameters of the
  model. Each call of the provider runs on a state \<open>'w\<close> of the outside world,
  which it may change, and either raises or returns. An argument that the
  caller leaves to the callee's default is \<open>None\<close>.
\<close>

record 'w manager =
  list_instances :: "string option \<Rightarrow> bool option \<Rightarrow> 'w \<Rightarrow> (exn + pyval list) \<times> 'w"
  list_volumes :: "string option \<Rightarrow> 'w \<Rightarrow> (exn + pyval list) \<times> 'w"
  list_snapshots :: "string option \<Rightarrow> bool option \<Rightarrow> 'w \<Rightarrow> (exn + pyval list) \<times> 'w"
  terminate_instance :: "string \<Rightarrow> 'w \<Rightarrow> (exn + pyval \<times> pyval) \<times> 'w"
  ec2_describe_instances :: "string list \<Rightarrow> 'w \<Rightarrow> (exn + pyval) \<times> 'w"

record 'w env =
  DevBoxManager :: "'w \<Rightarrow> (exn + 'w manager) \<times> 'w"
  launch_devbox ::
    "string \<Rightarrow> string option \<Rightarrow> string option \<Rightarrow> int \<Rightarrow> string option \<Rightarrow> string \<Rightarrow> bool
       \<Rightarrow> 'w \<Rightarrow> (exn + pyval) \<times> 'w"
  get_project_tag :: "pyval \<Rightarrow> exn + pyval"

text \<open>What the server does to the outside, in order.\<close>

datatype event =
    Call_DevBoxManager
  | Call_list_instances "string option" "bool option"
  | Call_list_volumes "string option"
  | Call_list_snapshots "string option" "bool option"
  | Call_terminate_instance string
  | Call_describe_instances "string list"
  | Call_launch_devbox string "string option" "string option" int "string option" string bool
  | Log_exception string

type_synonym 'w st = "'w \<times> event list"

type_synonym ('w, 'a) io = "'w st \<Rightarrow> (exn + 'a) \<times> 'w st"

definition return_io :: "'a \<Rightarrow> ('w, 'a) io" where
  "return_io x = (\<lambda>s. (Inr x, s))"

definition raise_io :: "exn \<Rightarrow> ('w, 'a) io" where
  "raise_io e = (\<lambda>s. (Inl e, s))"

definition lift_io :: "exn + 'a \<Rightarrow> ('w, 'a) io" where
  "lift_io r = (\<lambda>s. (r, s))"

definition bind_io :: "('w, 'a) io \<Rightarrow> ('a \<Rightarrow> ('w, 'b) io) \<Rightarrow> ('w, 'b) io" where
  "bind_io f g = (\<lambda>s. case f s of (Inl e, s') \<Rightarrow> (Inl e, s') | (Inr a, s') \<Rightarrow> g a s')"

text \<open>\<^verbatim>\<open>try: f except Exception as e: h e\<close>.\<close>

definition try_except :: "('w, 'a) io \<Rightarrow> (exn \<Rightarrow> ('w, 'a) io) \<Rightarrow> ('w, 'a) io" where
  "try_except f h = (\<lambda>s. case f s of (Inl e, s') \<Rightarrow> h e s' | (Inr a, s') \<Rightarrow> (Inr a, s'))"

text \<open>A call of a collaborator: it is recorded, then it runs on the world.\<close>

definition perform :: "event \<Rightarrow> ('w \<Rightarrow> (exn + 'a) \<times> 'w) \<Rightarrow> ('w, 'a) io" where
  "perform c f = (\<lambda>(w, tr). case f w of (r, w') \<Rightarrow> (r, (w', tr @ [c])))"

definition log_exception :: "string \<Rightarrow> ('w, unit) io" where
  "log_exception msg = (\<lambda>(w, tr). (Inr (), (w, tr @ [Log_exception msg])))"

section \<open>The target resolver\<close>

text \<open>The body of the \<^verbatim>\<open>try\<close> block of \<^verbatim>\<open>_resolve_termination_target\<close>.\<close>

definition direct_lookup :: "'w env \<Rightarrow> 'w manager \<Rightarrow> string \<Rightarrow> ('w, pyval \<times> pyval) io" where
  "direct_lookup env manager identifier =
     bind_io (perform (Call_describe_instances [identifier])
                (ec2_describe_instances manager [identifier])) (\<lambda>response.
     bind_io (lift_io (py_item response ''Reservations'')) (\<lambda>reservations.
     bind_io (lift_io (py_index0 reservations)) (\<lambda>reservation.
     bind_io (lift_io (py_item reservation ''Instances'')) (\<lambda>insts.
     bind_io (lift_io (py_index0 insts)) (\<lambda>inst.
     bind_io (lift_io (py_get inst ''Tags'' (PList []))) (\<lambda>tags.
     bind_io (lift_io (get_project_tag env tags)) (\<lambda>tag.
     bind_io (lift_io (py_get inst ''InstanceId'' PNone)) (\<lambda>iid.
     return_io (iid, py_or tag PNone)))))))))"

definition resolve_termination_target ::
    "'w env \<Rightarrow> 'w manager \<Rightarrow> string \<Rightarrow> ('w, pyval \<times> pyval) io" where
  "resolve_termination_target env manager identifier =
     bind_io (perform (Call_list_instances (Some identifier) None)
                (list_instances manager (Some identifier) None)) (\<lambda>instances.
     if length instances = 1 then
       bind_io (lift_io (py_get (instances ! 0) ''InstanceId'' PNone)) (\<lambda>iid.
       bind_io (lift_io (py_get (instances ! 0) ''Project'' PNone)) (\<lambda>proj.
       return_io (iid, proj)))
     else if length instances > 1 then return_io (PNone, PNone)
     else try_except (direct_lookup env manager identifier)
            (\<lambda>e. return_io (PNone, PNone)))"

section \<open>The three tools\<close>

definition devbox_launch ::
    "'w env \<Rightarrow> string \<Rightarrow> string option \<Rightarrow> string option \<Rightarrow> int \<Rightarrow> string option \<Rightarrow> string
       \<Rightarrow> ('w, pyval) io" where
  "devbox_launch env project instance_type key_pair volume_size base_ami param_prefix =
     try_except
       (perform
          (Call_launch_devbox project instance_type key_pair volume_size base_ami param_prefix False)
          (launch_devbox env project instance_type key_pair volume_size base_ami param_prefix False))
       (\<lambda>e. bind_io (log_exception ''devbox_launch failed'') (\<lambda>u.
            raise_io (Exn ''RuntimeError'' (''Failed to launch devbox: '' @ exn_str e) (Some e))))"

definition devbox_status :: "'w env \<Rightarrow> string option \<Rightarrow> ('w, pydict) io" where
  "devbox_status env project =
     try_except
       (bind_io (perform Call_DevBoxManager (DevBoxManager env)) (\<lambda>manager.
        bind_io (perform (Call_list_instances project (Some True))
                   (list_instances manager project (Some True))) (\<lambda>instances.
        bind_io (perform (Call_list_volumes project) (list_volumes manager project)) (\<lambda>volumes.
        bind_io (perform (Call_list_snapshots project (Some True))
                   (list_snapshots manager project (Some True))) (\<lambda>snapshots.
        return_io
          [(''instances'', PList instances),
           (''volumes'', PList volumes),
           (''snapshots'', PList snapshots)])))))
       (\<lambda>e. bind_io (log_exception ''devbox_status failed'') (\<lambda>u.
            raise_io (Exn ''RuntimeError'' (''Failed to retrieve status: '' @ exn_str e) (Some e))))"

definition devbox_terminate :: "'w env \<Rightarrow> string \<Rightarrow> ('w, pydict) io" where
  "devbox_terminate env identifier =
     try_except
       (bind_io (perform Call_DevBoxManager (DevBoxManager env)) (\<lambda>manager.
        bind_io (resolve_termination_target env manager identifier) (\<lambda>(instance_id, project).
        bind_io (perform (Call_terminate_instance identifier)
                   (terminate_instance manager identifier)) (\<lambda>(success, message).
        return_io
          [(''success'', success),
           (''message'', message),
           (''project'', project),
           (''instance_id'', instance_id)]))))
       (\<lambda>e. bind_io (log_exception ''devbox_terminate failed'') (\<lambda>u.
            raise_io (Exn ''RuntimeError'' (''Failed to terminate instance: '' @ exn_str e) (Some e))))"

text \<open>The identifiers the terminate operation was called with, in a trace.\<close>

fun terminate_calls :: "event list \<Rightarrow> string list" where
  "terminate_calls [] = []"
| "terminate_calls (Call_terminate_instance i # tr) = i # terminate_calls tr"
| "terminate_calls (c # tr) = terminate_calls tr"

section \<open>Mock collaborators\<close>

text \<open>
  Concrete collaborators in the manner of the mocks of \<^verbatim>\<open>tests/test_mcp_server.py\<close>,
  for running the tools on examples. The world is the number of provider calls made
  so far. One instance is tagged \<^verbatim>\<open>my-project\<close>, two are tagged \<^verbatim>\<open>team\<close>, the
  listing of instances raises for \<^verbatim>\<open>down\<close> and the listing of volumes for
  \<^verbatim>\<open>novol\<close>; the provider knows the instance ids \<^verbatim>\<open>i-777\<close> (no tags),
  \<^verbatim>\<open>i-888\<close> (an empty project tag) and \<^verbatim>\<open>i-999\<close> (project \<^verbatim>\<open>web\<close>), and
  refuses to terminate \<^verbatim>\<open>protected\<close>.
\<close>

definition mock_record :: "string \<Rightarrow> string \<Rightarrow> pyval" where
  "mock_record iid proj = PDict [(''InstanceId'', PStr iid), (''Project'', PStr proj)]"

definition mock_response :: "pyval \<Rightarrow> pyval" where
  "mock_response inst = PDict [(''Reservations'', PList [PDict [(''Instances'', PList [inst])]])]"

definition mock_tag :: "string \<Rightarrow> pyval" where
  "mock_tag v = PDict [(''Key'', PStr ''Project''), (''Value'', PStr v)]"

definition mock_manager :: "nat manager" where
  "mock_manager =
     \<lparr> list_instances = (\<lambda>project serialize w.
         (if project = Some ''down'' then Inl (Exn ''Exception'' ''Boom'' None)
          else if project = Some ''my-project'' then Inr [mock_record ''i-12345'' ''my-project'']
          else if project = Some ''team'' then Inr [mock_record ''i-1'' ''team'', mock_record ''i-2'' ''team'']
          else Inr [], Suc w)),
       list_volumes = (\<lambda>project w.
         (if project = Some ''novol'' then Inl (Exn ''Exception'' ''Boom'' None)
          else Inr [PDict [(''VolumeId'', PStr ''vol-1'')]], Suc w)),
       list_snapshots = (\<lambda>project serialize w.
         (Inr [PDict [(''SnapshotId'', PStr ''snap-1'')]], Suc w)),
       terminate_instance = (\<lambda>identifier w.
         (if identifier = ''protected'' then Inl (Exn ''ClientError'' ''OperationNotPermitted'' None)
          else Inr (PBool True, PStr ''Terminating''), Suc w)),
       ec2_describe_instances = (\<lambda>ids w.
         (if ids = [''i-777''] then Inr (mock_response (PDict [(''InstanceId'', PStr ''i-0777'')]))
          else if ids = [''i-888''] then
            Inr (mock_response (PDict [(''InstanceId'', PStr ''i-0888''), (''Tags'', PList [mock_tag ''''])]))
          else if ids = [''i-999''] then
            Inr (mock_response (PDict [(''InstanceId'', PStr ''i-0999''), (''Tags'', PList [mock_tag ''web''])]))
          else Inl (Exn ''ClientError'' ''InvalidInstanceID.NotFound'' None), Suc w)) \<rparr>"

text \<open>A tag helper for the examples: the value of the first tag, the empty string without tags.\<close>

definition mock_get_project_tag :: "pyval \<Rightarrow> exn + pyval" where
  "mock_get_project_tag tags =
     (case tags of
        PList [] \<Rightarrow> Inr (PStr [])
      | PList (t # ts) \<Rightarrow> py_item t ''Value''
      | _ \<Rightarrow> Inl (Exn ''TypeError'' ''tags must be a list'' None))"

definition mock_env :: "nat env" where
  "mock_env =
     \<lparr> DevBoxManager = (\<lambda>w. (Inr mock_manager, w)),
       launch_devbox = (\<lambda>project instance_type key_pair volume_size base_ami param_prefix emit_output w.
         (if project = ''bad name'' then Inl (Exn ''ValueError'' ''invalid project name'' None)
          else Inr (PDict [(''project'', PStr project), (''instance_id'', PStr ''i-12345''),
                           (''status'', PStr ''running'')]), Suc w)),
       get_project_tag = mock_get_project_tag \<rparr>"

text \<open>The same collaborators when the manager cannot be constructed.\<close>

definition mock_env_no_manager :: "nat env" where
  "mock_env_no_manager =
     mock_env\<lparr> DevBoxManager := (\<lambda>w. (Inl (Exn ''NoCredentialsError'' ''Unable to locate credentials'' None), w)) \<rparr>"

section \<open>Auxiliary facts\<close>

lemma terminate_calls_append:
  "terminate_calls (tr @ tr') = terminate_calls tr @ terminate_calls tr'"
  by (induction tr rule: terminate_calls.induct) simp_all


lemmas io_defs = return_io_def raise_io_def lift_io_def bind_io_def try_except_def
  perform_def log_exception_def

lemmas mock_defs = mock_manager_def mock_env_def mock_env_no_manager_def mock_record_def
  mock_response_def mock_tag_def mock_get_project_tag_def

section \<open>The resolver's three outcomes\<close>

text \<open>
  Claim C2. When the query by project tag returns exactly one instance record, the
  resolver returns that record's instance id and that record's project (each
  \<^verbatim>\<open>None\<close> when the record lacks the key). The only call it makes is the query: the
  direct lookup by id is not performed.
\<close>

theorem resolve_single_match:
  assumes "list_instances manager (Some identifier) None w = (Inr [PDict d], w')"
  shows "resolve_termination_target env manager identifier (w, tr) =
           (Inr (dict_get d ''InstanceId'' PNone, dict_get d ''Project'' PNone),
            (w', tr @ [Call_list_instances (Some identifier) None]))"
  using assms by (simp add: resolve_termination_target_def io_defs)

text \<open>
  The mock has one instance tagged \<^verbatim>\<open>my-project\<close>.
\<close>

theorem resolve_single_match_witness:
  "list_instances mock_manager (Some ''my-project'') None 0 =
     (Inr [PDict [(''InstanceId'', PStr ''i-12345''), (''Project'', PStr ''my-project'')]], 1)
   \<and> resolve_termination_target mock_env mock_manager ''my-project'' (0, []) =
     (Inr (PStr ''i-12345'', PStr ''my-project''),
      (1, [Call_list_instances (Some ''my-project'') None]))"
proof -
  have q: "list_instances mock_manager (Some ''my-project'') None 0 =
             (Inr [PDict [(''InstanceId'', PStr ''i-12345''), (''Project'', PStr ''my-project'')]], 1)"
    by (simp add: mock_defs)
  show ?thesis
    using resolve_single_match [OF q, of mock_env "[]"] q by (simp add: dict_get_def)
qed

text \<open>
  Claim C3. When the query by project tag returns two or more records, the resolver
  returns \<^verbatim>\<open>(None, None)\<close>: it returns normally, and the only call it makes is the
  query, so there is no direct lookup by id.
\<close>

theorem resolve_ambiguous:
  assumes "list_instances manager (Some identifier) None w = (Inr instances, w')"
      and "2 \<le> length instances"
  shows "resolve_termination_target env manager identifier (w, tr) =
           (Inr (PNone, PNone), (w', tr @ [Call_list_instances (Some identifier) None]))"
  using assms by (simp add: resolve_termination_target_def io_defs)

text \<open>
  The mock has two instances tagged \<^verbatim>\<open>team\<close>.
\<close>

theorem resolve_ambiguous_witness:
  "list_instances mock_manager (Some ''team'') None 0 =
     (Inr [mock_record ''i-1'' ''team'', mock_record ''i-2'' ''team''], 1)
   \<and> resolve_termination_target mock_env mock_manager ''team'' (0, []) =
     (Inr (PNone, PNone), (1, [Call_list_instances (Some ''team'') None]))"
proof -
  have q: "list_instances mock_manager (Some ''team'') None 0 =
             (Inr [mock_record ''i-1'' ''team'', mock_record ''i-2'' ''team''], 1)"
    by (simp add: mock_manager_def)
  have n: "2 \<le> length [mock_record ''i-1'' ''team'', mock_record ''i-2'' ''team'']"
    by simp
  show ?thesis
    using resolve_ambiguous [OF q n, of mock_env "[]"] q by simp
qed

lemma direct_lookup_trace:
  assumes "ec2_describe_instances manager [identifier] w = (r, w')"
  shows "snd (direct_lookup env manager identifier (w, tr)) =
           (w', tr @ [Call_describe_instances [identifier]])"
  using assms
  by (auto simp add: direct_lookup_def io_defs split: sum.splits prod.splits)

lemma direct_lookup_raises:
  assumes "ec2_describe_instances manager [identifier] w = (Inl e, w')"
  shows "direct_lookup env manager identifier (w, tr) =
           (Inl e, (w', tr @ [Call_describe_instances [identifier]]))"
  using assms by (simp add: direct_lookup_def io_defs)

lemma resolve_zero_matches:
  assumes "list_instances manager (Some identifier) None w = (Inr [], w1)"
  shows "resolve_termination_target env manager identifier (w, tr) =
           (case direct_lookup env manager identifier
                   (w1, tr @ [Call_list_instances (Some identifier) None]) of
              (Inl e, s) \<Rightarrow> (Inr (PNone, PNone), s)
            | (Inr p, s) \<Rightarrow> (Inr p, s))"
  using assms by (simp add: resolve_termination_target_def io_defs)


text \<open>
  Claim C4. When the query by project tag returns no record, the resolver looks the
  identifier up as an instance id: \<^verbatim>\<open>describe_instances\<close> is called once, with the
  identifier as the only id. The resolver then returns normally in every case; when
  the provider call raises, or anything else in the lookup does (a response without
  reservations or instances, a failing tag helper), the result is
  \<^verbatim>\<open>(None, None)\<close> and the exception is gone.
\<close>

theorem resolve_fallback_swallows:
  assumes "list_instances manager (Some identifier) None w = (Inr [], w1)"
  shows "\<exists>res.
           resolve_termination_target env manager identifier (w, tr) =
             (Inr res,
              (snd (ec2_describe_instances manager [identifier] w1),
               tr @ [Call_list_instances (Some identifier) None,
                     Call_describe_instances [identifier]]))
         \<and> (\<forall>e. fst (ec2_describe_instances manager [identifier] w1) = Inl e
                \<longrightarrow> res = (PNone, PNone))
         \<and> (\<forall>e. fst (direct_lookup env manager identifier
                        (w1, tr @ [Call_list_instances (Some identifier) None])) = Inl e
                \<longrightarrow> res = (PNone, PNone))"
proof -
  let ?tr1 = "tr @ [Call_list_instances (Some identifier) None]"
  obtain r w2 where d: "ec2_describe_instances manager [identifier] w1 = (r, w2)"
    by (cases "ec2_describe_instances manager [identifier] w1")
  obtain q s where l: "direct_lookup env manager identifier (w1, ?tr1) = (q, s)"
    by (cases "direct_lookup env manager identifier (w1, ?tr1)")
  have s: "s = (w2, ?tr1 @ [Call_describe_instances [identifier]])"
    using direct_lookup_trace [OF d, of env "?tr1"] l by simp
  have raised: "\<exists>e'. q = Inl e'" if "r = Inl e" for e
  proof -
    have "ec2_describe_instances manager [identifier] w1 = (Inl e, w2)"
      using d that by simp
    from direct_lookup_raises [OF this, of env "?tr1"] show ?thesis
      using l by auto
  qed
  show ?thesis
  proof (cases q)
    case (Inl e)
    then show ?thesis
      using resolve_zero_matches [OF assms, of env tr] l s d by simp
  next
    case (Inr p)
    then show ?thesis
      using resolve_zero_matches [OF assms, of env tr] l s d raised by auto
  qed
qed

text \<open>
  The mock provider does not know the id \<^verbatim>\<open>ghost\<close> and raises.
\<close>

theorem resolve_fallback_swallows_witness:
  "list_instances mock_manager (Some ''ghost'') None 0 = (Inr [], 1)
   \<and> fst (ec2_describe_instances mock_manager [''ghost''] 1) =
        Inl (Exn ''ClientError'' ''InvalidInstanceID.NotFound'' None)
   \<and> resolve_termination_target mock_env mock_manager ''ghost'' (0, []) =
        (Inr (PNone, PNone),
         (2, [Call_list_instances (Some ''ghost'') None, Call_describe_instances [''ghost'']]))"
proof -
  have q: "list_instances mock_manager (Some ''ghost'') None 0 = (Inr [], 1)"
    by (simp add: mock_manager_def)
  have d: "ec2_describe_instances mock_manager [''ghost''] 1 =
             (Inl (Exn ''ClientError'' ''InvalidInstanceID.NotFound'' None), 2)"
    by (simp add: mock_manager_def)
  show ?thesis
    using resolve_fallback_swallows [OF q, of mock_env "[]"] q d by auto
qed

text \<open>
  Claim C9. On the direct lookup path, the instance id of the result is the one of the
  record the provider returned, whatever the caller's identifier; and the project is
  \<^verbatim>\<open>None\<close> both when the tag helper reports no project as \<^verbatim>\<open>None\<close> and when it
  gives the empty string (an instance without a \<^verbatim>\<open>Tags\<close> key is handed to the helper
  as the empty list). Any other helper result goes through \<^verbatim>\<open>or None\<close>.
\<close>

theorem resolve_fallback_project:
  assumes "list_instances manager (Some identifier) None w = (Inr [], w1)"
      and "ec2_describe_instances manager [identifier] w1 = (Inr response, w2)"
      and "py_item response ''Reservations'' = Inr reservations"
      and "py_index0 reservations = Inr reservation"
      and "py_item reservation ''Instances'' = Inr insts"
      and "py_index0 insts = Inr (PDict inst)"
      and "get_project_tag env (dict_get inst ''Tags'' (PList [])) = Inr tag"
  shows "resolve_termination_target env manager identifier (w, tr) =
           (Inr (dict_get inst ''InstanceId'' PNone,
                 if tag = PNone \<or> tag = PStr [] then PNone else py_or tag PNone),
            (w2, tr @ [Call_list_instances (Some identifier) None,
                       Call_describe_instances [identifier]]))"
  using assms
  by (simp add: resolve_termination_target_def direct_lookup_def io_defs py_or_def)

text \<open>
  The mock provider answers \<^verbatim>\<open>i-777\<close> with a record without tags and \<^verbatim>\<open>i-888\<close>
  with a record whose project tag is empty; the ids in the records differ from the
  identifiers asked for.
\<close>

theorem resolve_fallback_project_witness:
  "resolve_termination_target mock_env mock_manager ''i-777'' (0, []) =
     (Inr (PStr ''i-0777'', PNone),
      (2, [Call_list_instances (Some ''i-777'') None, Call_describe_instances [''i-777'']]))
   \<and> resolve_termination_target mock_env mock_manager ''i-888'' (0, []) =
     (Inr (PStr ''i-0888'', PNone),
      (2, [Call_list_instances (Some ''i-888'') None, Call_describe_instances [''i-888'']]))"
proof -
  have a: "resolve_termination_target mock_env mock_manager ''i-777'' (0, []) =
     (Inr (PStr ''i-0777'', PNone),
      (2, [Call_list_instances (Some ''i-777'') None, Call_describe_instances [''i-777'']]))"
    using resolve_fallback_project [of mock_manager "''i-777''" 0 1
        "mock_response (PDict [(''InstanceId'', PStr ''i-0777'')])" 2
        "PList [PDict [(''Instances'', PList [PDict [(''InstanceId'', PStr ''i-0777'')]])]]"
        "PDict [(''Instances'', PList [PDict [(''InstanceId'', PStr ''i-0777'')]])]"
        "PList [PDict [(''InstanceId'', PStr ''i-0777'')]]"
        "[(''InstanceId'', PStr ''i-0777'')]" mock_env "PStr []" "[]"]
    by (simp add: mock_defs dict_get_def)
  have b: "resolve_termination_target mock_env mock_manager ''i-888'' (0, []) =
     (Inr (PStr ''i-0888'', PNone),
      (2, [Call_list_instances (Some ''i-888'') None, Call_describe_instances [''i-888'']]))"
    using resolve_fallback_project [of mock_manager "''i-888''" 0 1
        "mock_response (PDict [(''InstanceId'', PStr ''i-0888''), (''Tags'', PList [mock_tag ''''])])" 2
        "PList [PDict [(''Instances'', PList [PDict [(''InstanceId'', PStr ''i-0888''), (''Tags'', PList [mock_tag ''''])]])]]"
        "PDict [(''Instances'', PList [PDict [(''InstanceId'', PStr ''i-0888''), (''Tags'', PList [mock_tag ''''])]])]"
        "PList [PDict [(''InstanceId'', PStr ''i-0888''), (''Tags'', PList [mock_tag ''''])]]"
        "[(''InstanceId'', PStr ''i-0888''), (''Tags'', PList [mock_tag ''''])]" mock_env "PStr []" "[]"]
    by (simp add: mock_defs dict_get_def)
  from a b show ?thesis by simp
qed


section \<open>The terminate tool\<close>

lemma resolve_raises:
  assumes "list_instances manager (Some identifier) None w = (Inl e, w')"
  shows "resolve_termination_target env manager identifier (w, tr) =
           (Inl e, (w', tr @ [Call_list_instances (Some identifier) None]))"
  using assms by (simp add: resolve_termination_target_def io_defs)


lemma devbox_terminate_no_manager:
  assumes "DevBoxManager env w = (Inl e, w1)"
  shows "devbox_terminate env identifier (w, tr) =
           (Inl (Exn ''RuntimeError'' (''Failed to terminate instance: '' @ exn_str e) (Some e)),
            (w1, tr @ [Call_DevBoxManager, Log_exception ''devbox_terminate failed'']))"
  using assms by (simp add: devbox_terminate_def io_defs)

lemma devbox_terminate_resolve_raises:
  assumes "DevBoxManager env w = (Inr manager, w1)"
      and "resolve_termination_target env manager identifier (w1, tr @ [Call_DevBoxManager]) =
             (Inl e, (w2, tr2))"
  shows "devbox_terminate env identifier (w, tr) =
           (Inl (Exn ''RuntimeError'' (''Failed to terminate instance: '' @ exn_str e) (Some e)),
            (w2, tr2 @ [Log_exception ''devbox_terminate failed'']))"
  using assms by (simp add: devbox_terminate_def io_defs)

lemma devbox_terminate_resolved:
  assumes "DevBoxManager env w = (Inr manager, w1)"
      and "resolve_termination_target env manager identifier (w1, tr @ [Call_DevBoxManager]) =
             (Inr (instance_id, project), (w2, tr2))"
  shows "devbox_terminate env identifier (w, tr) =
           (case terminate_instance manager identifier w2 of
              (Inl e, w3) \<Rightarrow>
                (Inl (Exn ''RuntimeError'' (''Failed to terminate instance: '' @ exn_str e) (Some e)),
                 (w3, tr2 @ [Call_terminate_instance identifier,
                             Log_exception ''devbox_terminate failed'']))
            | (Inr (success, message), w3) \<Rightarrow>
                (Inr [(''success'', success), (''message'', message),
                      (''project'', project), (''instance_id'', instance_id)],
                 (w3, tr2 @ [Call_terminate_instance identifier])))"
  using assms by (simp add: devbox_terminate_def io_defs split: prod.splits sum.splits)

text \<open>
  Claim C10. When the resolver's query by project tag raises, the resolver raises the
  same exception; \<^verbatim>\<open>devbox_terminate\<close> then raises its \<^verbatim>\<open>RuntimeError\<close> and has
  made no call of the terminate operation (the trace holds the construction of the
  manager, the query and the log entry only).
\<close>

theorem first_phase_failure_propagates:
  assumes "DevBoxManager env w = (Inr manager, w1)"
      and "list_instances manager (Some identifier) None w1 = (Inl e, w2)"
  shows "resolve_termination_target env manager identifier (w1, tr @ [Call_DevBoxManager]) =
           (Inl e, (w2, tr @ [Call_DevBoxManager, Call_list_instances (Some identifier) None]))
         \<and> devbox_terminate env identifier (w, tr) =
           (Inl (Exn ''RuntimeError'' (''Failed to terminate instance: '' @ exn_str e) (Some e)),
            (w2, tr @ [Call_DevBoxManager, Call_list_instances (Some identifier) None,
                       Log_exception ''devbox_terminate failed'']))
         \<and> terminate_calls (snd (snd (devbox_terminate env identifier (w, tr)))) =
             terminate_calls tr"
proof -
  have r: "resolve_termination_target env manager identifier (w1, tr @ [Call_DevBoxManager]) =
           (Inl e, (w2, tr @ [Call_DevBoxManager, Call_list_instances (Some identifier) None]))"
    using resolve_raises [OF assms(2), of env "tr @ [Call_DevBoxManager]"] by simp
  show ?thesis
    using r devbox_terminate_resolve_raises [OF assms(1) r]
    by (simp add: terminate_calls_append)
qed

text \<open>
  The mock's listing of instances raises for \<^verbatim>\<open>down\<close>.
\<close>

theorem first_phase_failure_propagates_witness:
  "list_instances mock_manager (Some ''down'') None 0 = (Inl (Exn ''Exception'' ''Boom'' None), 1)
   \<and> devbox_terminate mock_env ''down'' (0, []) =
      (Inl (Exn ''RuntimeError'' ''Failed to terminate instance: Boom''
              (Some (Exn ''Exception'' ''Boom'' None))),
       (1, [Call_DevBoxManager, Call_list_instances (Some ''down'') None,
            Log_exception ''devbox_terminate failed'']))
   \<and> terminate_calls (snd (snd (devbox_terminate mock_env ''down'' (0, [])))) = []"
proof -
  have c: "DevBoxManager mock_env 0 = (Inr mock_manager, 0)"
    by (simp add: mock_env_def)
  have q: "list_instances mock_manager (Some ''down'') None 0 =
             (Inl (Exn ''Exception'' ''Boom'' None), 1)"
    by (simp add: mock_manager_def)
  show ?thesis
    using first_phase_failure_propagates [OF c q, of "[]"] q by simp
qed






section \<open>The status tool\<close>



text \<open>
  Claim C6. Let \<open>r1\<close>, \<open>r2\<close> and \<open>r3\<close> be what the three queries give when run one
  after the other. If at least one of them is a failure, whatever the other two are,
  \<^verbatim>\<open>devbox_status\<close> raises one \<^verbatim>\<open>RuntimeError\<close> whose message is
  \<^verbatim>\<open>Failed to retrieve status: \<close> followed by the description of the first failure;
  the result is that failure alone, with no data.
\<close>

theorem devbox_status_any_query_fails:
  assumes "DevBoxManager env w = (Inr manager, w1)"
      and "list_instances manager project (Some True) w1 = (r1, w2)"
      and "list_volumes manager project w2 = (r2, w3)"
      and "list_snapshots manager project (Some True) w3 = (r3, w4)"
      and "isl r1 \<or> isl r2 \<or> isl r3"
  shows "\<exists>e s'.
           devbox_status env project (w, tr) =
             (Inl (Exn ''RuntimeError'' (''Failed to retrieve status: '' @ exn_str e) (Some e)), s')
         \<and> e = (if isl r1 then projl r1 else if isl r2 then projl r2 else projl r3)"
  using assms
  by (cases r1; cases r2; cases r3) (simp_all add: devbox_status_def io_defs)

text \<open>
  On the mock, the listing of volumes raises for \<^verbatim>\<open>novol\<close> while the two other
  queries succeed.
\<close>

theorem devbox_status_any_query_fails_witness:
  "list_instances mock_manager (Some ''novol'') (Some True) 0 = (Inr [], 1)
   \<and> list_volumes mock_manager (Some ''novol'') 1 = (Inl (Exn ''Exception'' ''Boom'' None), 2)
   \<and> list_snapshots mock_manager (Some ''novol'') (Some True) 2 =
        (Inr [PDict [(''SnapshotId'', PStr ''snap-1'')]], 3)
   \<and> fst (devbox_status mock_env (Some ''novol'') (0, [])) =
        Inl (Exn ''RuntimeError'' ''Failed to retrieve status: Boom''
               (Some (Exn ''Exception'' ''Boom'' None)))"
proof -
  have c: "DevBoxManager mock_env 0 = (Inr mock_manager, 0)"
    by (simp add: mock_env_def)
  have q1: "list_instances mock_manager (Some ''novol'') (Some True) 0 = (Inr [], 1)"
    by (simp add: mock_manager_def)
  have q2: "list_volumes mock_manager (Some ''novol'') 1 = (Inl (Exn ''Exception'' ''Boom'' None), 2)"
    by (simp add: mock_manager_def)
  have q3: "list_snapshots mock_manager (Some ''novol'') (Some True) 2 =
        (Inr [PDict [(''SnapshotId'', PStr ''snap-1'')]], 3)"
    by (simp add: mock_manager_def)
  have f: "isl (Inr [] :: exn + pyval list) \<or> isl (Inl (Exn ''Exception'' ''Boom'' None) :: exn + pyval list)
             \<or> isl (Inr [PDict [(''SnapshotId'', PStr ''snap-1'')]] :: exn + pyval list)"
    by simp
  from devbox_status_any_query_fails [OF c q1 q2 q3 f, of "[]"] q1 q2 q3 show ?thesis
    by auto
qed

section \<open>Failures at the boundary of the tools\<close>

lemma handler_result:
  assumes "try_except f (\<lambda>e. bind_io (log_exception msg) (\<lambda>u. raise_io (g e))) s = (Inl x, s')"
  shows "\<exists>e s1. f s = (Inl e, s1) \<and> x = g e"
  using assms
  by (cases s) (auto simp add: io_defs split: prod.splits sum.splits)

lemma devbox_launch_raises:
  assumes "launch_devbox env project instance_type key_pair volume_size base_ami param_prefix
             False w = (Inl e, w')"
  shows "devbox_launch env project instance_type key_pair volume_size base_ami param_prefix (w, tr) =
           (Inl (Exn ''RuntimeError'' (''Failed to launch devbox: '' @ exn_str e) (Some e)),
            (w', tr @ [Call_launch_devbox project instance_type key_pair volume_size base_ami
                         param_prefix False,
                       Log_exception ''devbox_launch failed'']))"
  using assms by (simp add: devbox_launch_def io_defs)

lemma devbox_status_no_manager:
  assumes "DevBoxManager env w = (Inl e, w1)"
  shows "devbox_status env project (w, tr) =
           (Inl (Exn ''RuntimeError'' (''Failed to retrieve status: '' @ exn_str e) (Some e)),
            (w1, tr @ [Call_DevBoxManager, Log_exception ''devbox_status failed'']))"
  using assms by (simp add: devbox_status_def io_defs)

lemma devbox_status_first_failure:
  assumes "DevBoxManager env w = (Inr manager, w1)"
      and "list_instances manager project (Some True) w1 = (r1, w2)"
      and "list_volumes manager project w2 = (r2, w3)"
      and "list_snapshots manager project (Some True) w3 = (r3, w4)"
      and "r1 = Inl e \<or> r1 = Inr instances \<and> (r2 = Inl e \<or> r2 = Inr volumes \<and> r3 = Inl e)"
  shows "fst (devbox_status env project (w, tr)) =
           Inl (Exn ''RuntimeError'' (''Failed to retrieve status: '' @ exn_str e) (Some e))"
  using assms
  by (cases r1; cases r2; cases r3) (auto simp add: devbox_status_def io_defs)

text \<open>
  Claim C7. A failure of a collaborator that arrives at the boundary of a tool is caught
  there and raised again as one \<^verbatim>\<open>RuntimeError\<close> whose message is the tool's prefix
  followed by the failure's description, and whose cause is the failure: for
  \<^verbatim>\<open>devbox_launch\<close> a failure of \<^verbatim>\<open>launch_devbox\<close>; for \<^verbatim>\<open>devbox_status\<close> a failure
  to construct the manager or the first failing query; for \<^verbatim>\<open>devbox_terminate\<close> a
  failure to construct the manager, of the resolver's query by project tag, or of the
  terminate operation. Every failure a tool raises has this form, so the caller sees no
  other kind. An error of the resolver's direct lookup is a resolution failure: the
  resolver turns it into \<^verbatim>\<open>(None, None)\<close> and it never arrives at the boundary.
\<close>

theorem facade_failures_normalised:
  "(launch_devbox env project instance_type key_pair volume_size base_ami param_prefix False w =
        (Inl e, w') \<longrightarrow>
      fst (devbox_launch env project instance_type key_pair volume_size base_ami param_prefix (w, tr)) =
        Inl (Exn ''RuntimeError'' (''Failed to launch devbox: '' @ exn_str e) (Some e)))
   \<and> (devbox_launch env project instance_type key_pair volume_size base_ami param_prefix (w, tr) =
        (Inl x, s) \<longrightarrow>
      (\<exists>e0. x = Exn ''RuntimeError'' (''Failed to launch devbox: '' @ exn_str e0) (Some e0)))
   \<and> (DevBoxManager env w = (Inl e, w') \<longrightarrow>
      fst (devbox_status env flt (w, tr)) =
        Inl (Exn ''RuntimeError'' (''Failed to retrieve status: '' @ exn_str e) (Some e)))
   \<and> (DevBoxManager env w = (Inr manager, w1)
        \<and> list_instances manager flt (Some True) w1 = (r1, w2)
        \<and> list_volumes manager flt w2 = (r2, w3)
        \<and> list_snapshots manager flt (Some True) w3 = (r3, w4)
        \<and> (r1 = Inl e \<or> r1 = Inr instances \<and> (r2 = Inl e \<or> r2 = Inr volumes \<and> r3 = Inl e)) \<longrightarrow>
      fst (devbox_status env flt (w, tr)) =
        Inl (Exn ''RuntimeError'' (''Failed to retrieve status: '' @ exn_str e) (Some e)))
   \<and> (devbox_status env flt (w, tr) = (Inl x, s) \<longrightarrow>
      (\<exists>e0. x = Exn ''RuntimeError'' (''Failed to retrieve status: '' @ exn_str e0) (Some e0)))
   \<and> (DevBoxManager env w = (Inl e, w') \<longrightarrow>
      fst (devbox_terminate env identifier (w, tr)) =
        Inl (Exn ''RuntimeError'' (''Failed to terminate instance: '' @ exn_str e) (Some e)))
   \<and> (DevBoxManager env w = (Inr manager, w1)
        \<and> list_instances manager (Some identifier) None w1 = (Inl e, w2) \<longrightarrow>
      fst (devbox_terminate env identifier (w, tr)) =
        Inl (Exn ''RuntimeError'' (''Failed to terminate instance: '' @ exn_str e) (Some e)))
   \<and> (DevBoxManager env w = (Inr manager, w1)
        \<and> resolve_termination_target env manager identifier (w1, tr @ [Call_DevBoxManager]) =
            (Inr p, (w2, tr2))
        \<and> terminate_instance manager identifier w2 = (Inl e, w3) \<longrightarrow>
      fst (devbox_terminate env identifier (w, tr)) =
        Inl (Exn ''RuntimeError'' (''Failed to terminate instance: '' @ exn_str e) (Some e)))
   \<and> (devbox_terminate env identifier (w, tr) = (Inl x, s) \<longrightarrow>
      (\<exists>e0. x = Exn ''RuntimeError'' (''Failed to terminate instance: '' @ exn_str e0) (Some e0)))"
proof (intro conjI impI)
  assume "launch_devbox env project instance_type key_pair volume_size base_ami param_prefix False w =
        (Inl e, w')"
  from devbox_launch_raises [OF this]
  show "fst (devbox_launch env project instance_type key_pair volume_size base_ami param_prefix (w, tr)) =
        Inl (Exn ''RuntimeError'' (''Failed to launch devbox: '' @ exn_str e) (Some e))"
    by simp
next
  assume failed: "devbox_launch env project instance_type key_pair volume_size base_ami param_prefix (w, tr) =
        (Inl x, s)"
  show "\<exists>e0. x = Exn ''RuntimeError'' (''Failed to launch devbox: '' @ exn_str e0) (Some e0)"
    using handler_result
        [where g = "\<lambda>e. Exn ''RuntimeError'' (''Failed to launch devbox: '' @ exn_str e) (Some e)",
         OF failed [unfolded devbox_launch_def]]
    by blast
next
  assume "DevBoxManager env w = (Inl e, w')"
  from devbox_status_no_manager [OF this]
  show "fst (devbox_status env flt (w, tr)) =
        Inl (Exn ''RuntimeError'' (''Failed to retrieve status: '' @ exn_str e) (Some e))"
    by simp
next
  assume "DevBoxManager env w = (Inr manager, w1)
        \<and> list_instances manager flt (Some True) w1 = (r1, w2)
        \<and> list_volumes manager flt w2 = (r2, w3)
        \<and> list_snapshots manager flt (Some True) w3 = (r3, w4)
        \<and> (r1 = Inl e \<or> r1 = Inr instances \<and> (r2 = Inl e \<or> r2 = Inr volumes \<and> r3 = Inl e))"
  then show "fst (devbox_status env flt (w, tr)) =
        Inl (Exn ''RuntimeError'' (''Failed to retrieve status: '' @ exn_str e) (Some e))"
    using devbox_status_first_failure [of env w manager w1 flt r1 w2 r2 w3 r3 w4 e instances volumes tr]
    by blast
next
  assume failed: "devbox_status env flt (w, tr) = (Inl x, s)"
  show "\<exists>e0. x = Exn ''RuntimeError'' (''Failed to retrieve status: '' @ exn_str e0) (Some e0)"
    using handler_result
        [where g = "\<lambda>e. Exn ''RuntimeError'' (''Failed to retrieve status: '' @ exn_str e) (Some e)",
         OF failed [unfolded devbox_status_def]]
    by blast
next
  assume "DevBoxManager env w = (Inl e, w')"
  from devbox_terminate_no_manager [OF this]
  show "fst (devbox_terminate env identifier (w, tr)) =
        Inl (Exn ''RuntimeError'' (''Failed to terminate instance: '' @ exn_str e) (Some e))"
    by simp
next
  assume h: "DevBoxManager env w = (Inr manager, w1)
        \<and> list_instances manager (Some identifier) None w1 = (Inl e, w2)"
  then have c: "DevBoxManager env w = (Inr manager, w1)"
    and q: "list_instances manager (Some identifier) None w1 = (Inl e, w2)"
    by simp_all
  from devbox_terminate_resolve_raises [OF c resolve_raises [OF q]]
  show "fst (devbox_terminate env identifier (w, tr)) =
        Inl (Exn ''RuntimeError'' (''Failed to terminate instance: '' @ exn_str e) (Some e))"
    by simp
next
  assume h: "DevBoxManager env w = (Inr manager, w1)
        \<and> resolve_termination_target env manager identifier (w1, tr @ [Call_DevBoxManager]) =
            (Inr p, (w2, tr2))
        \<and> terminate_instance manager identifier w2 = (Inl e, w3)"
  obtain instance_id proj where p: "p = (instance_id, proj)"
    by (cases p)
  from h p have c: "DevBoxManager env w = (Inr manager, w1)"
    and r: "resolve_termination_target env manager identifier (w1, tr @ [Call_DevBoxManager]) =
            (Inr (instance_id, proj), (w2, tr2))"
    and t: "terminate_instance manager identifier w2 = (Inl e, w3)"
    by simp_all
  from devbox_terminate_resolved [OF c r] t
  show "fst (devbox_terminate env identifier (w, tr)) =
        Inl (Exn ''RuntimeError'' (''Failed to terminate instance: '' @ exn_str e) (Some e))"
    by simp
next
  assume failed: "devbox_terminate env identifier (w, tr) = (Inl x, s)"
  show "\<exists>e0. x = Exn ''RuntimeError'' (''Failed to terminate instance: '' @ exn_str e0) (Some e0)"
    using handler_result
        [where g = "\<lambda>e. Exn ''RuntimeError'' (''Failed to terminate instance: '' @ exn_str e) (Some e)",
         OF failed [unfolded devbox_terminate_def]]
    by blast
qed

text \<open>
  Each of the failures on the mocks: an invalid name at launch, no credentials,
  a failing listing of volumes, a failing listing of instances in the resolver, and a
  refused termination.
\<close>

theorem facade_failures_normalised_witness:
  "fst (devbox_launch mock_env ''bad name'' None None 0 None ''/devbox'' (0, [])) =
       Inl (Exn ''RuntimeError'' ''Failed to launch devbox: invalid project name''
              (Some (Exn ''ValueError'' ''invalid project name'' None)))
   \<and> fst (devbox_status mock_env_no_manager None (0, [])) =
       Inl (Exn ''RuntimeError'' ''Failed to retrieve status: Unable to locate credentials''
              (Some (Exn ''NoCredentialsError'' ''Unable to locate credentials'' None)))
   \<and> fst (devbox_status mock_env (Some ''novol'') (0, [])) =
       Inl (Exn ''RuntimeError'' ''Failed to retrieve status: Boom''
              (Some (Exn ''Exception'' ''Boom'' None)))
   \<and> fst (devbox_terminate mock_env_no_manager ''my-project'' (0, [])) =
       Inl (Exn ''RuntimeError'' ''Failed to terminate instance: Unable to locate credentials''
              (Some (Exn ''NoCredentialsError'' ''Unable to locate credentials'' None)))
   \<and> fst (devbox_terminate mock_env ''down'' (0, [])) =
       Inl (Exn ''RuntimeError'' ''Failed to terminate instance: Boom''
              (Some (Exn ''Exception'' ''Boom'' None)))
   \<and> fst (devbox_terminate mock_env ''protected'' (0, [])) =
       Inl (Exn ''RuntimeError'' ''Failed to terminate instance: OperationNotPermitted''
              (Some (Exn ''ClientError'' ''OperationNotPermitted'' None)))"
proof -
  let ?boom = "Exn ''Exception'' ''Boom'' None"
  let ?cred = "Exn ''NoCredentialsError'' ''Unable to locate credentials'' None"
  have c: "DevBoxManager mock_env 0 = (Inr mock_manager, 0)"
    by (simp add: mock_env_def)
  have n: "DevBoxManager mock_env_no_manager 0 = (Inl ?cred, 0)"
    by (simp add: mock_env_no_manager_def mock_env_def)
  have l: "launch_devbox mock_env ''bad name'' None None 0 None ''/devbox'' False 0 =
     (Inl (Exn ''ValueError'' ''invalid project name'' None), 1)"
    by (simp add: mock_env_def)
  have launch: "fst (devbox_launch mock_env ''bad name'' None None 0 None ''/devbox'' (0, [])) =
       Inl (Exn ''RuntimeError'' ''Failed to launch devbox: invalid project name''
              (Some (Exn ''ValueError'' ''invalid project name'' None)))"
    using facade_failures_normalised [of mock_env "''bad name''" None None 0 None "''/devbox''" 0
      "Exn ''ValueError'' ''invalid project name'' None" 1 "[]"] l
    by simp
  have no_manager:
    "fst (devbox_status mock_env_no_manager None (0, [])) =
       Inl (Exn ''RuntimeError'' ''Failed to retrieve status: Unable to locate credentials''
              (Some ?cred))
     \<and> fst (devbox_terminate mock_env_no_manager ''my-project'' (0, [])) =
       Inl (Exn ''RuntimeError'' ''Failed to terminate instance: Unable to locate credentials''
              (Some ?cred))"
    using facade_failures_normalised [where env = mock_env_no_manager and w = 0 and e = "?cred"
      and w' = 0 and tr = "[]" and flt = None and ?identifier = "''my-project''"] n
    by simp
  have q1: "list_instances mock_manager (Some ''novol'') (Some True) 0 = (Inr [], 1)"
    by (simp add: mock_manager_def)
  have q2: "list_volumes mock_manager (Some ''novol'') 1 = (Inl ?boom, 2)"
    by (simp add: mock_manager_def)
  have q3: "list_snapshots mock_manager (Some ''novol'') (Some True) 2 =
        (Inr [PDict [(''SnapshotId'', PStr ''snap-1'')]], 3)"
    by (simp add: mock_manager_def)
  have status: "fst (devbox_status mock_env (Some ''novol'') (0, [])) =
       Inl (Exn ''RuntimeError'' ''Failed to retrieve status: Boom'' (Some ?boom))"
    using facade_failures_normalised [where env = mock_env and w = 0 and manager = mock_manager
      and ?w1.0 = 0 and flt = "Some ''novol''" and ?r1.0 = "Inr []" and ?w2.0 = 1
      and ?r2.0 = "Inl ?boom" and ?w3.0 = 2
      and ?r3.0 = "Inr [PDict [(''SnapshotId'', PStr ''snap-1'')]]" and ?w4.0 = 3
      and e = "?boom" and instances = "[]" and tr = "[]"] c q1 q2 q3
    by simp
  have d: "list_instances mock_manager (Some ''down'') None 0 = (Inl ?boom, 1)"
    by (simp add: mock_manager_def)
  have down: "fst (devbox_terminate mock_env ''down'' (0, [])) =
       Inl (Exn ''RuntimeError'' ''Failed to terminate instance: Boom'' (Some ?boom))"
    using facade_failures_normalised [where env = mock_env and w = 0 and manager = mock_manager
      and ?w1.0 = 0 and ?identifier = "''down''" and e = "?boom" and ?w2.0 = 1 and tr = "[]"] c d
    by simp
  have r: "resolve_termination_target mock_env mock_manager ''protected''
             (0, [] @ [Call_DevBoxManager]) =
     (Inr (PNone, PNone),
      (2, [Call_DevBoxManager, Call_list_instances (Some ''protected'') None,
           Call_describe_instances [''protected'']]))"
    by (simp add: resolve_termination_target_def direct_lookup_def io_defs mock_manager_def)
  have t: "terminate_instance mock_manager ''protected'' 2 =
             (Inl (Exn ''ClientError'' ''OperationNotPermitted'' None), 3)"
    by (simp add: mock_manager_def)
  have protected: "fst (devbox_terminate mock_env ''protected'' (0, [])) =
       Inl (Exn ''RuntimeError'' ''Failed to terminate instance: OperationNotPermitted''
              (Some (Exn ''ClientError'' ''OperationNotPermitted'' None)))"
    using facade_failures_normalised [where env = mock_env and w = 0 and manager = mock_manager
      and ?w1.0 = 0 and ?identifier = "''protected''" and tr = "[]" and p = "(PNone, PNone)"
      and ?w2.0 = 2
      and ?tr2.0 = "[Call_DevBoxManager, Call_list_instances (Some ''protected'') None,
           Call_describe_instances [''protected'']]"
      and e = "Exn ''ClientError'' ''OperationNotPermitted'' None" and ?w3.0 = 3] c r t
    by simp
  from launch no_manager status down protected show ?thesis
    by simp
qed

text \<open>
  The scenario of an unknown identifier: no instance is tagged \<^verbatim>\<open>ghost\<close> and the
  provider's lookup of the id \<^verbatim>\<open>ghost\<close> raises. The response carries \<^verbatim>\<open>None\<close> for
  the instance id and the project, and what the terminate operation reported.
\<close>

lemma devbox_terminate_unknown_identifier:
  "fst (ec2_describe_instances mock_manager [''ghost''] 1) =
     Inl (Exn ''ClientError'' ''InvalidInstanceID.NotFound'' None)
   \<and> devbox_terminate mock_env ''ghost'' (0, []) =
       (Inr [(''success'', PBool True), (''message'', PStr ''Terminating''),
             (''project'', PNone), (''instance_id'', PNone)],
        (3, [Call_DevBoxManager, Call_list_instances (Some ''ghost'') None,
             Call_describe_instances [''ghost''], Call_terminate_instance ''ghost'']))"
  by (simp add: devbox_terminate_def resolve_termination_target_def direct_lookup_def io_defs
        mock_manager_def mock_env_def)

end
